theory Spec2Isabelle
  imports Complex_Main "HOL-Library.Sublist"
begin

section \<open>Data model of \<^verbatim>\<open>smart_harvester.py\<close>\<close>

text \<open>
  Python strings are modelled as \<^typ>\<open>string\<close> restricted to ASCII, Python's unbounded
  integers as \<^typ>\<open>int\<close>, and Python's floats as exact rationals (\<^typ>\<open>rat\<close>): every
  float the harvester computes is a quotient or product of small integers and of the
  literals 0.8, 2.0, 2.5, 3.0, 10 and 100, so the model leaves out rounding, overflow to
  infinity and NaN.  (The one comparison with 0.8 is of a correctly rounded quotient
  \<open>d / n\<close> of list lengths with the double nearest to 4/5; rounding is monotone, and a
  quotient below 4/5 differs from it by at least \<open>1 / (5 * n)\<close>, so for every list that
  fits in memory the comparison of the doubles is the comparison of the rationals.)  A \<^verbatim>\<open>dict\<close> is an association list in insertion order with
  distinct keys, because \<^verbatim>\<open>dict.values()\<close> is iterated in that order.
\<close>

datatype py_error = KeyError | ValueError | ZeroDivisionError | IOError

text \<open>\<^verbatim>\<open>facebook_video_scraper.VideoData\<close>\<close>

record VideoData =
  video_id :: string
  title :: string
  url :: string
  date :: string
  date_raw :: string
  likes :: int
  comments :: int
  shares :: int
  views :: string
  description :: string
  thumbnail_url :: string

record ContinuationPoint =
  strategy :: string
  reasoning :: string
  scroll_offset :: int
  target_date_range :: "string option"
  anchor_video_id :: "string option"
  expected_scroll_depth :: int
  date_filter_active :: bool
  scroll_strategy :: string

text \<open>A naive \<^verbatim>\<open>datetime\<close>, as the number of microseconds since year 1.\<close>

type_synonym datetime = nat

record HarvestSession =
  session_id :: string
  timestamp :: datetime
  videos_found :: int
  success_rate :: rat
  completion_time :: rat
  target_filter :: string
  total_score :: int
  continuation_point :: "ContinuationPoint option"

record HarvestStats =
  total_sessions :: int
  total_videos :: int
  unique_videos :: int
  total_time :: rat
  average_success_rate :: rat
  stats_total_score :: int
  best_session_score :: int
  last_harvest :: string

type_synonym corpus = "(string \<times> VideoData) list"

record SmartHarvester =
  sessions :: "HarvestSession list"
  all_videos :: corpus
  harvest_stats :: HarvestStats
  session_gap_min :: int
  session_gap_max :: int
  duplicate_threshold :: rat
  early_check_count :: int

subsection \<open>Dictionary operations\<close>

text \<open>\<^verbatim>\<open>k in d\<close>\<close>

definition dict_contains :: "('k \<times> 'v) list \<Rightarrow> 'k \<Rightarrow> bool" where
  "dict_contains d k = (k \<in> set (map fst d))"

text \<open>\<^verbatim>\<open>d[k] = v\<close>: a present key keeps its position, a new key goes last.\<close>

fun dict_set :: "('k \<times> 'v) list \<Rightarrow> 'k \<Rightarrow> 'v \<Rightarrow> ('k \<times> 'v) list" where
  "dict_set [] k v = [(k, v)]"
| "dict_set ((k', v') # d) k v =
     (if k' = k then (k, v) # d else (k', v') # dict_set d k v)"

text \<open>\<^verbatim>\<open>d.values()\<close> and \<^verbatim>\<open>d.keys()\<close>\<close>

definition dict_values :: "('k \<times> 'v) list \<Rightarrow> 'v list" where
  "dict_values d = map snd d"

definition dict_keys :: "('k \<times> 'v) list \<Rightarrow> 'k list" where
  "dict_keys d = map fst d"

section \<open>Corpus merge (the loop of \<^verbatim>\<open>run_harvest_session\<close>, lines 493-499)\<close>

text \<open>
  One iteration: returns the corpus and the counters \<^verbatim>\<open>new_videos\<close>,
  \<^verbatim>\<open>duplicate_videos\<close>.
\<close>

definition merge_video :: "corpus \<times> int \<times> int \<Rightarrow> VideoData \<Rightarrow> corpus \<times> int \<times> int" where
  "merge_video st video =
     (case st of (vids, new_videos, duplicate_videos) \<Rightarrow>
        if \<not> dict_contains vids (video_id video)
        then (dict_set vids (video_id video) video, new_videos + 1, duplicate_videos)
        else (vids, new_videos, duplicate_videos + 1))"

definition merge_videos :: "corpus \<Rightarrow> VideoData list \<Rightarrow> corpus \<times> int \<times> int" where
  "merge_videos vids videos = foldl merge_video (vids, 0, 0) videos"

section \<open>DuplicateGuard: \<^verbatim>\<open>_should_continue_session\<close>\<close>

definition should_continue_session :: "SmartHarvester \<Rightarrow> VideoData list \<Rightarrow> py_error + bool" where
  "should_continue_session h scraped_videos =
     (if int (length scraped_videos) < early_check_count h then Inr True
      else
        let duplicates = length (filter (\<lambda>video. dict_contains (all_videos h) (video_id video))
                                   scraped_videos)
        in if length scraped_videos = 0 then Inl ZeroDivisionError
           else
             let duplicate_rate = (of_nat duplicates :: rat) / of_nat (length scraped_videos)
             in if duplicate_rate \<ge> duplicate_threshold h then Inr False else Inr True)"

section \<open>Age priority: \<^verbatim>\<open>_parse_date_to_priority\<close>\<close>

text \<open>
  Character classes of Python's \<^verbatim>\<open>re\<close> on ASCII text: \<^verbatim>\<open>\d\<close> is a decimal digit,
  \<^verbatim>\<open>\s\<close> is one of the code points 9 to 13, 28 to 31 and 32.
\<close>

definition is_digit :: "char \<Rightarrow> bool" where
  "is_digit c = (c \<in> set ''0123456789'')"

definition is_space :: "char \<Rightarrow> bool" where
  "is_space c = ((of_char c :: nat) \<in> {9, 10, 11, 12, 13, 28, 29, 30, 31, 32})"

definition lower_char :: "char \<Rightarrow> char" where
  "lower_char c =
     (if c \<in> set ''ABCDEFGHIJKLMNOPQRSTUVWXYZ'' then char_of (of_char c + 32 :: nat) else c)"

text \<open>\<^verbatim>\<open>str.lower()\<close>\<close>

definition lower :: "string \<Rightarrow> string" where
  "lower s = map lower_char s"

definition digit_value :: "char \<Rightarrow> int" where
  "digit_value c = int (of_char c) - 48"

text \<open>
  \<^verbatim>\<open>int(s)\<close> on a string of decimal digits.  (Python from 3.11 on refuses more than
  4300 digits; the model has no such limit.)
\<close>

definition int_of_digits :: "string \<Rightarrow> int" where
  "int_of_digits ds = foldl (\<lambda>a c. 10 * a + digit_value c) 0 ds"

text \<open>
  The pattern \<^verbatim>\<open>(\d+)\s+(year|month|day|hour)\<close> tried at the start of a string.
  Both repetitions are greedy; giving back a digit would leave \<^verbatim>\<open>\s+\<close> facing a digit
  and giving back a blank would leave the unit facing a blank, so the only way to
  match is with the longest run of digits and the longest run of blanks.  The result is
  \<^verbatim>\<open>(int(group(1)), group(2))\<close>.
\<close>

definition match_here :: "string \<Rightarrow> (int \<times> string) option" where
  "match_here s =
     (let ds = takeWhile is_digit s;
          r1 = dropWhile is_digit s;
          ws = takeWhile is_space r1;
          r2 = dropWhile is_space r1
      in if ds = [] \<or> ws = [] then None
         else if prefix ''year'' r2 then Some (int_of_digits ds, ''year'')
         else if prefix ''month'' r2 then Some (int_of_digits ds, ''month'')
         else if prefix ''day'' r2 then Some (int_of_digits ds, ''day'')
         else if prefix ''hour'' r2 then Some (int_of_digits ds, ''hour'')
         else None)"

text \<open>\<^verbatim>\<open>re.search\<close>: the match at the leftmost position that has one.\<close>

fun re_search :: "string \<Rightarrow> (int \<times> string) option" where
  "re_search [] = None"
| "re_search (c # cs) =
     (case match_here (c # cs) of Some m \<Rightarrow> Some m | None \<Rightarrow> re_search cs)"

definition parse_date_to_priority :: "string \<Rightarrow> int" where
  "parse_date_to_priority date_str =
     (if date_str = [] then 9999
      else case re_search (lower date_str) of
        Some (number, unit) \<Rightarrow>
          if unit = ''year'' then number * 365
          else if unit = ''month'' then number * 30
          else if unit = ''day'' then number
          else if unit = ''hour'' then 0
          else 5000
      | None \<Rightarrow> 5000)"

section \<open>GapScheduler: \<^verbatim>\<open>_calculate_session_gap\<close>\<close>

text \<open>
  \<^verbatim>\<open>random.randint(a, b)\<close> raises \<^verbatim>\<open>ValueError\<close> on an empty range; otherwise it
  returns the draw, which the caller of the model supplies.
\<close>

definition randint :: "int \<Rightarrow> int \<Rightarrow> int \<Rightarrow> py_error + int" where
  "randint a b draw = (if a > b then Inl ValueError else Inr draw)"

text \<open>\<^verbatim>\<open>int(x)\<close> on a float: truncation toward zero.\<close>

definition py_int :: "rat \<Rightarrow> int" where
  "py_int x = (if 0 \<le> x then \<lfloor>x\<rfloor> else \<lceil>x\<rceil>)"

text \<open>\<^verbatim>\<open>xs[-2:]\<close>\<close>

definition last_two :: "'a list \<Rightarrow> 'a list" where
  "last_two xs = drop (length xs - 2) xs"

definition calculate_session_gap :: "SmartHarvester \<Rightarrow> int \<Rightarrow> rat \<Rightarrow> py_error + int" where
  "calculate_session_gap h draw gap_multiplier =
     (case randint (session_gap_min h) (session_gap_max h) draw of
        Inl e \<Rightarrow> Inl e
      | Inr base_gap \<Rightarrow>
          let m1 =
                (if length (sessions h) \<ge> 2 then
                   let recent_success_rates = map success_rate (last_two (sessions h))
                   in if length recent_success_rates = 2
                         \<and> recent_success_rates ! 1 < recent_success_rates ! 0 - 10
                      then gap_multiplier * 3
                      else gap_multiplier
                 else gap_multiplier);
              m2 = (if length (sessions h) \<ge> 2 then m1 * (5 / 2) else m1);
              final_gap = py_int (of_int base_gap * m2)
          in Inr (min (max final_gap 30) 300))"

section \<open>Collection analysis: \<^verbatim>\<open>_analyze_collection_gaps\<close>\<close>

text \<open>The values stored in the analysis dictionary.\<close>

datatype py_value =
    VStr string
  | VInt int
  | VStrList "string list"
  | VGroups "(string \<times> VideoData list) list"

text \<open>\<^verbatim>\<open>d[k]\<close>\<close>

definition dict_get :: "('k \<times> 'v) list \<Rightarrow> 'k \<Rightarrow> py_error + 'v" where
  "dict_get d k = (case map_of d k of None \<Rightarrow> Inl KeyError | Some v \<Rightarrow> Inr v)"

definition group_step ::
  "(string \<times> VideoData list) list \<Rightarrow> VideoData \<Rightarrow> (string \<times> VideoData list) list" where
  "group_step date_groups video =
     (let date_key = date video;
          dg = (if \<not> dict_contains date_groups date_key
                then dict_set date_groups date_key [] else date_groups)
      in case map_of dg date_key of
           Some vs \<Rightarrow> dict_set dg date_key (vs @ [video])
         | None \<Rightarrow> dg)"

text \<open>
  \<^verbatim>\<open>sorted(..., key=..., reverse=True)\<close> keeps equal keys in their original order, as
  a stable ascending sort on the negated key does.
\<close>

definition analyze_collection_gaps :: "SmartHarvester \<Rightarrow> (string \<times> py_value) list" where
  "analyze_collection_gaps h =
     (if all_videos h = [] then
        [(''strategy'', VStr ''fresh_start''), (''reasoning'', VStr ''No existing videos'')]
      else
        let videos_with_dates =
              filter (\<lambda>v. date v \<noteq> [] \<and> date v \<noteq> []) (dict_values (all_videos h));
            date_groups = foldl group_step [] videos_with_dates;
            sorted_dates = sort_key parse_date_to_priority (dict_keys date_groups)
        in [(''total_videos'', VInt (int (length (all_videos h)))),
            (''date_ranges'', VInt (int (length date_groups))),
            (''most_recent_dates'', VStrList (if sorted_dates \<noteq> [] then take 3 sorted_dates else [])),
            (''largest_date_groups'',
               VGroups (take 3 (sort_key (\<lambda>x. - int (length (snd x))) date_groups)))])"

section \<open>ContinuationPlanner: \<^verbatim>\<open>_calculate_advanced_continuation_point\<close>\<close>

text \<open>\<^verbatim>\<open>str(n)\<close> for an integer, as the f-strings format it.\<close>

fun str_nat :: "nat \<Rightarrow> string" where
  "str_nat n =
     (if n < 10 then [char_of (48 + n)]
      else str_nat (n div 10) @ [char_of (48 + n mod 10)])"

declare str_nat.simps [simp del]

definition str_int :: "int \<Rightarrow> string" where
  "str_int i = (if i < 0 then ''-'' @ str_nat (nat (- i)) else str_nat (nat i))"

text \<open>\<^verbatim>\<open>s[-8:]\<close>\<close>

definition last8 :: "string \<Rightarrow> string" where
  "last8 s = drop (length s - 8) s"

text \<open>The dataclass with its defaults; each call site overrides some fields.\<close>

definition ContinuationPoint_default :: "string \<Rightarrow> string \<Rightarrow> ContinuationPoint" where
  "ContinuationPoint_default strat reason =
     \<lparr> strategy = strat, reasoning = reason, scroll_offset = 0, target_date_range = None,
       anchor_video_id = None, expected_scroll_depth = 0, date_filter_active = False,
       scroll_strategy = ''adaptive'' \<rparr>"

text \<open>
  \<open>draw\<close> is what \<^verbatim>\<open>random.randint(10, 15)\<close> returns.  The last branch of the lookup
  of \<^verbatim>\<open>most_recent_dates\<close> is not reached: the analysis stores a list of strings
  under that key.
\<close>

definition calculate_advanced_continuation_point ::
  "SmartHarvester \<Rightarrow> int \<Rightarrow> int \<Rightarrow> py_error + ContinuationPoint" where
  "calculate_advanced_continuation_point h session_num draw =
     (if session_num = 0 then
        Inr ((ContinuationPoint_default ''fresh_start'' ''Session 1: Fresh start from top'')
               \<lparr> scroll_offset := 0, expected_scroll_depth := 0, scroll_strategy := ''standard'' \<rparr>)
      else
        let analysis = analyze_collection_gaps h in
        if session_num = 1 then
          (case randint 10 15 draw of
             Inl e \<Rightarrow> Inl e
           | Inr offset \<Rightarrow>
               Inr ((ContinuationPoint_default ''scroll_offset''
                       (''Session 2: Start at scroll '' @ str_int offset @ '' to avoid overlap''))
                      \<lparr> scroll_offset := offset, expected_scroll_depth := offset + 20,
                        scroll_strategy := ''adaptive'' \<rparr>))
        else
          let dated_videos =
                (if session_num \<ge> 2 then
                   map (\<lambda>vid. (vid, parse_date_to_priority (date vid)))
                     (filter (\<lambda>vid. date vid \<noteq> []) (dict_values (all_videos h)))
                 else [])
          in
          if session_num \<ge> 2 \<and> dated_videos \<noteq> [] then
            let sorted_videos = sort_key snd dated_videos;
                target_index = min (length sorted_videos div 2) (length sorted_videos - 1);
                anchor_video = fst (sorted_videos ! target_index);
                scroll_depth = min (session_num * 12) 50
            in Inr ((ContinuationPoint_default ''video_id_anchor''
                       (''Session '' @ str_int (session_num + 1) @ '': Continue from video ''
                          @ last8 (video_id anchor_video) @ ''... ('' @ date anchor_video @ '')''))
                      \<lparr> scroll_offset := scroll_depth,
                        target_date_range := Some (date anchor_video),
                        anchor_video_id := Some (video_id anchor_video),
                        expected_scroll_depth := scroll_depth + 15,
                        date_filter_active := True,
                        scroll_strategy := ''deep'' \<rparr>)
          else
            (case dict_get analysis ''most_recent_dates'' of
               Inl e \<Rightarrow> Inl e
             | Inr (VStrList most_recent_dates) \<Rightarrow>
                 if most_recent_dates \<noteq> [] then
                   let target_date = last most_recent_dates
                   in Inr ((ContinuationPoint_default ''date_anchor''
                              (''Session '' @ str_int (session_num + 1) @ '': Target ''
                                 @ target_date @ '' content''))
                             \<lparr> scroll_offset := session_num * 8,
                               target_date_range := Some target_date,
                               expected_scroll_depth := session_num * 8 + 20,
                               date_filter_active := True,
                               scroll_strategy := ''adaptive'' \<rparr>)
                 else
                   Inr ((ContinuationPoint_default ''deep_scroll''
                           (''Session '' @ str_int (session_num + 1) @ '': Deep scroll continuation''))
                          \<lparr> scroll_offset := session_num * 10,
                            expected_scroll_depth := session_num * 10 + 25,
                            scroll_strategy := ''deep'' \<rparr>)
             | Inr _ \<Rightarrow> Inl ValueError))"

section \<open>Persisted state: \<^verbatim>\<open>_load_harvest_history\<close> and \<^verbatim>\<open>_save_harvest_results\<close>\<close>

text \<open>
  The document is the value \<^verbatim>\<open>json.load\<close> returns, restricted to values of the types
  the dataclasses declare.  A field is \<open>None\<close> when its key is absent from the JSON
  object.  The two continuation fields that may hold \<^verbatim>\<open>null\<close> have a nested option:
  \<open>None\<close> for an absent key, \<open>Some None\<close> for \<^verbatim>\<open>null\<close>.
\<close>

record video_doc =
  vd_video_id :: "string option"
  vd_title :: "string option"
  vd_url :: "string option"
  vd_date :: "string option"
  vd_date_raw :: "string option"
  vd_likes :: "int option"
  vd_comments :: "int option"
  vd_shares :: "int option"
  vd_views :: "string option"
  vd_description :: "string option"
  vd_thumbnail_url :: "string option"

record continuation_doc =
  cd_strategy :: "string option"
  cd_reasoning :: "string option"
  cd_scroll_offset :: "int option"
  cd_target_date_range :: "string option option"
  cd_anchor_video_id :: "string option option"
  cd_expected_scroll_depth :: "int option"
  cd_date_filter_active :: "bool option"
  cd_scroll_strategy :: "string option"

text \<open>
  The \<^verbatim>\<open>"timestamp"\<close> of a session: absent, a string \<^verbatim>\<open>datetime.fromisoformat\<close>
  rejects, or the ISO text of a datetime (what \<^verbatim>\<open>isoformat()\<close> writes).
\<close>

datatype iso_field = Absent | Malformed | Iso datetime

record session_doc =
  sd_session_id :: "string option"
  sd_timestamp :: iso_field
  sd_videos_found :: "int option"
  sd_success_rate :: "rat option"
  sd_completion_time :: "rat option"
  sd_target_filter :: "string option"
  sd_total_score :: "int option"
  sd_continuation_point :: "continuation_doc option"

record metadata_doc =
  md_harvester_version :: "string option"
  md_last_harvest :: "string option"
  md_total_sessions :: "int option"
  md_total_videos :: "int option"
  md_unique_videos :: "int option"
  md_total_time :: "rat option"
  md_average_success_rate :: "rat option"
  md_total_score :: "int option"
  md_best_session_score :: "int option"

record harvest_doc =
  hd_harvest_metadata :: "metadata_doc option"
  hd_sessions :: "session_doc list option"
  hd_all_videos :: "(string \<times> video_doc) list option"
  hd_total_sessions :: "int option"
  hd_total_videos :: "int option"
  hd_unique_videos :: "int option"
  hd_total_time :: "rat option"
  hd_total_score :: "int option"
  hd_best_session_score :: "int option"

text \<open>
  \<^verbatim>\<open>harvest_results.json\<close>: missing, present but \<^verbatim>\<open>open\<close> raises, present but
  \<^verbatim>\<open>json.load\<close> raises, or holding a document.
\<close>

datatype harvest_file = NoFile | Unreadable | Corrupt | Parsed harvest_doc

text \<open>\<^verbatim>\<open>d.get(k, default)\<close>\<close>

definition get_or :: "'a option \<Rightarrow> 'a \<Rightarrow> 'a" where
  "get_or field dflt = (case field of None \<Rightarrow> dflt | Some v \<Rightarrow> v)"

text \<open>\<^verbatim>\<open>d[k]\<close> on a field of the document\<close>

definition required :: "'a option \<Rightarrow> py_error + 'a" where
  "required field = (case field of None \<Rightarrow> Inl KeyError | Some v \<Rightarrow> Inr v)"

definition fromisoformat :: "iso_field \<Rightarrow> py_error + datetime" where
  "fromisoformat f = (case f of Absent \<Rightarrow> Inl KeyError | Malformed \<Rightarrow> Inl ValueError | Iso t \<Rightarrow> Inr t)"

definition load_metadata :: "metadata_doc \<Rightarrow> HarvestStats \<Rightarrow> HarvestStats" where
  "load_metadata metadata stats =
     stats \<lparr> total_sessions := get_or (md_total_sessions metadata) 0,
             total_videos := get_or (md_total_videos metadata) 0,
             unique_videos := get_or (md_unique_videos metadata) 0,
             total_time := get_or (md_total_time metadata) 0,
             average_success_rate := get_or (md_average_success_rate metadata) 0,
             stats_total_score := get_or (md_total_score metadata) 0,
             best_session_score := get_or (md_best_session_score metadata) 0,
             last_harvest := get_or (md_last_harvest metadata) [] \<rparr>"

definition load_video :: "video_doc \<Rightarrow> py_error + VideoData" where
  "load_video video_data =
     (case required (vd_video_id video_data) of Inl e \<Rightarrow> Inl e | Inr vid \<Rightarrow>
      case required (vd_title video_data) of Inl e \<Rightarrow> Inl e | Inr t \<Rightarrow>
      case required (vd_url video_data) of Inl e \<Rightarrow> Inl e | Inr u \<Rightarrow>
        Inr \<lparr> video_id = vid, title = t, url = u,
              date = get_or (vd_date video_data) [],
              date_raw = get_or (vd_date_raw video_data) [],
              likes = get_or (vd_likes video_data) 0,
              comments = get_or (vd_comments video_data) 0,
              shares = get_or (vd_shares video_data) 0,
              views = get_or (vd_views video_data) [],
              description = get_or (vd_description video_data) [],
              thumbnail_url = get_or (vd_thumbnail_url video_data) [] \<rparr>)"

text \<open>
  The loops of the loader stop at the first exception and keep what they stored before
  it; the second component is the exception, if any.
\<close>

fun load_videos :: "corpus \<Rightarrow> (string \<times> video_doc) list \<Rightarrow> corpus \<times> py_error option" where
  "load_videos vids [] = (vids, None)"
| "load_videos vids ((k, video_data) # rest) =
     (case load_video video_data of
        Inl e \<Rightarrow> (vids, Some e)
      | Inr v \<Rightarrow> load_videos (dict_set vids k v) rest)"

definition load_continuation :: "continuation_doc \<Rightarrow> ContinuationPoint" where
  "load_continuation continuation_data =
     \<lparr> strategy = get_or (cd_strategy continuation_data) ''fresh_start'',
       reasoning = get_or (cd_reasoning continuation_data) [],
       scroll_offset = get_or (cd_scroll_offset continuation_data) 0,
       target_date_range = get_or (cd_target_date_range continuation_data) None,
       anchor_video_id = get_or (cd_anchor_video_id continuation_data) None,
       expected_scroll_depth = get_or (cd_expected_scroll_depth continuation_data) 0,
       date_filter_active = get_or (cd_date_filter_active continuation_data) False,
       scroll_strategy = get_or (cd_scroll_strategy continuation_data) ''adaptive'' \<rparr>"

text \<open>Truth value of the continuation dictionary: it has at least one key.\<close>

definition continuation_doc_truthy :: "continuation_doc \<Rightarrow> bool" where
  "continuation_doc_truthy cd =
     (cd_strategy cd \<noteq> None \<or> cd_reasoning cd \<noteq> None \<or> cd_scroll_offset cd \<noteq> None
      \<or> cd_target_date_range cd \<noteq> None \<or> cd_anchor_video_id cd \<noteq> None
      \<or> cd_expected_scroll_depth cd \<noteq> None \<or> cd_date_filter_active cd \<noteq> None
      \<or> cd_scroll_strategy cd \<noteq> None)"

definition load_session :: "session_doc \<Rightarrow> py_error + HarvestSession" where
  "load_session session_data =
     (let continuation =
            (case sd_continuation_point session_data of
               None \<Rightarrow> None
             | Some cd \<Rightarrow> if continuation_doc_truthy cd then Some (load_continuation cd) else None)
      in
      case required (sd_session_id session_data) of Inl e \<Rightarrow> Inl e | Inr sid \<Rightarrow>
      case fromisoformat (sd_timestamp session_data) of Inl e \<Rightarrow> Inl e | Inr ts \<Rightarrow>
      case required (sd_videos_found session_data) of Inl e \<Rightarrow> Inl e | Inr vf \<Rightarrow>
      case required (sd_success_rate session_data) of Inl e \<Rightarrow> Inl e | Inr sr \<Rightarrow>
      case required (sd_completion_time session_data) of Inl e \<Rightarrow> Inl e | Inr ct \<Rightarrow>
      case required (sd_target_filter session_data) of Inl e \<Rightarrow> Inl e | Inr tf \<Rightarrow>
      case required (sd_total_score session_data) of Inl e \<Rightarrow> Inl e | Inr sc \<Rightarrow>
        Inr \<lparr> session_id = sid, timestamp = ts, videos_found = vf, success_rate = sr,
              completion_time = ct, target_filter = tf, total_score = sc,
              continuation_point = continuation \<rparr>)"

fun load_sessions ::
  "HarvestSession list \<Rightarrow> session_doc list \<Rightarrow> HarvestSession list \<times> py_error option" where
  "load_sessions ss [] = (ss, None)"
| "load_sessions ss (session_data # rest) =
     (case load_session session_data of
        Inl e \<Rightarrow> (ss, Some e)
      | Inr s \<Rightarrow> load_sessions (ss @ [s]) rest)"

text \<open>
  The body of the \<^verbatim>\<open>try\<close>; the \<^verbatim>\<open>except Exception\<close> clause logs the exception as a
  warning and the harvester keeps the state reached when it was raised.
\<close>

definition load_harvest_history ::
  "harvest_file \<Rightarrow> SmartHarvester \<Rightarrow> SmartHarvester \<times> py_error option" where
  "load_harvest_history file h =
     (case file of
        NoFile \<Rightarrow> (h, None)
      | Unreadable \<Rightarrow> (h, Some IOError)
      | Corrupt \<Rightarrow> (h, Some ValueError)
      | Parsed data \<Rightarrow>
          let h1 = (case hd_harvest_metadata data of
                      None \<Rightarrow> h
                    | Some metadata \<Rightarrow> h \<lparr> harvest_stats := load_metadata metadata (harvest_stats h) \<rparr>);
              (vids, err1) = (case hd_all_videos data of
                                None \<Rightarrow> (all_videos h1, None)
                              | Some vs \<Rightarrow> load_videos (all_videos h1) vs);
              h2 = h1 \<lparr> all_videos := vids \<rparr>
          in if err1 \<noteq> None then (h2, err1)
             else
               let (ss, err2) = (case hd_sessions data of
                                   None \<Rightarrow> (sessions h2, None)
                                 | Some sds \<Rightarrow> load_sessions (sessions h2) sds)
               in (h2 \<lparr> sessions := ss \<rparr>, err2))"

text \<open>\<^verbatim>\<open>HarvestStats()\<close> and \<^verbatim>\<open>SmartHarvester.__init__\<close>\<close>

definition HarvestStats_default :: HarvestStats where
  "HarvestStats_default =
     \<lparr> total_sessions = 0, total_videos = 0, unique_videos = 0, total_time = 0,
       average_success_rate = 0, stats_total_score = 0, best_session_score = 0,
       last_harvest = [] \<rparr>"

definition SmartHarvester_new :: SmartHarvester where
  "SmartHarvester_new =
     \<lparr> sessions = [], all_videos = [], harvest_stats = HarvestStats_default,
       session_gap_min = 30, session_gap_max = 120,
       duplicate_threshold = 4 / 5, early_check_count = 20 \<rparr>"

definition SmartHarvester_init :: "harvest_file \<Rightarrow> SmartHarvester \<times> py_error option" where
  "SmartHarvester_init file = load_harvest_history file SmartHarvester_new"

text \<open>\<^verbatim>\<open>asdict\<close> of the dataclasses, as written into the document.\<close>

definition continuation_asdict :: "ContinuationPoint \<Rightarrow> continuation_doc" where
  "continuation_asdict cp =
     \<lparr> cd_strategy = Some (strategy cp), cd_reasoning = Some (reasoning cp),
       cd_scroll_offset = Some (scroll_offset cp),
       cd_target_date_range = Some (target_date_range cp),
       cd_anchor_video_id = Some (anchor_video_id cp),
       cd_expected_scroll_depth = Some (expected_scroll_depth cp),
       cd_date_filter_active = Some (date_filter_active cp),
       cd_scroll_strategy = Some (scroll_strategy cp) \<rparr>"

definition video_asdict :: "VideoData \<Rightarrow> video_doc" where
  "video_asdict v =
     \<lparr> vd_video_id = Some (video_id v), vd_title = Some (title v), vd_url = Some (url v),
       vd_date = Some (date v), vd_date_raw = Some (date_raw v), vd_likes = Some (likes v),
       vd_comments = Some (comments v), vd_shares = Some (shares v), vd_views = Some (views v),
       vd_description = Some (description v), vd_thumbnail_url = Some (thumbnail_url v) \<rparr>"

definition session_dict :: "HarvestSession \<Rightarrow> session_doc" where
  "session_dict session =
     \<lparr> sd_session_id = Some (session_id session),
       sd_timestamp = Iso (timestamp session),
       sd_videos_found = Some (videos_found session),
       sd_success_rate = Some (success_rate session),
       sd_completion_time = Some (completion_time session),
       sd_target_filter = Some (target_filter session),
       sd_total_score = Some (total_score session),
       sd_continuation_point =
         (case continuation_point session of
            None \<Rightarrow> None
          | Some cp \<Rightarrow> Some (continuation_asdict cp)) \<rparr>"

text \<open>The dictionary \<^verbatim>\<open>harvest_data\<close>; \<open>now\<close> is \<^verbatim>\<open>datetime.now().isoformat()\<close>.\<close>

definition harvest_data :: "SmartHarvester \<Rightarrow> string \<Rightarrow> harvest_doc" where
  "harvest_data h now =
     \<lparr> hd_harvest_metadata = Some
         \<lparr> md_harvester_version = Some ''2.0'',
           md_last_harvest = Some now,
           md_total_sessions = Some (int (length (sessions h))),
           md_total_videos = Some (total_videos (harvest_stats h)),
           md_unique_videos = Some (int (length (all_videos h))),
           md_total_time = Some (total_time (harvest_stats h)),
           md_average_success_rate = Some (average_success_rate (harvest_stats h)),
           md_total_score = Some (stats_total_score (harvest_stats h)),
           md_best_session_score = Some (best_session_score (harvest_stats h)) \<rparr>,
       hd_sessions = Some (map session_dict (sessions h)),
       hd_all_videos = Some (map (\<lambda>(vid, video). (vid, video_asdict video)) (all_videos h)),
       hd_total_sessions = Some (int (length (sessions h))),
       hd_total_videos = Some (total_videos (harvest_stats h)),
       hd_unique_videos = Some (int (length (all_videos h))),
       hd_total_time = Some (total_time (harvest_stats h)),
       hd_total_score = Some (stats_total_score (harvest_stats h)),
       hd_best_session_score = Some (best_session_score (harvest_stats h)) \<rparr>"

text \<open>
  Writing the file is the only step of \<^verbatim>\<open>_save_harvest_results\<close> that can raise.  The
  outcome comes from outside: \<open>None\<close> when \<^verbatim>\<open>open\<close> and \<^verbatim>\<open>json.dump\<close> succeed,
  \<open>Some f\<close> when one of them raises and leaves the file as \<open>f\<close>.  The
  \<^verbatim>\<open>except Exception\<close> clause logs the exception; the second component is that exception.
\<close>

definition save_harvest_results ::
  "SmartHarvester \<Rightarrow> string \<Rightarrow> harvest_file option \<Rightarrow> harvest_file \<times> py_error option" where
  "save_harvest_results h now write_failure =
     (case write_failure of
        None \<Rightarrow> (Parsed (harvest_data h now), None)
      | Some left_behind \<Rightarrow> (left_behind, Some IOError))"

section \<open>HarvestOrchestrator: one session and the driving loop\<close>

text \<open>
  Everything a session takes from outside the harvester: the random draws, the clock,
  what the scraper returns (\<open>None\<close> when constructing or running it raises), the score
  the scraper reports, and how the write of the state file ends.
\<close>

record session_env =
  env_offset_draw :: int
  env_scroll_count_draw :: int
  env_session_id :: string
  env_scraped :: "VideoData list option"
  env_completion_time :: rat
  env_session_score :: int
  env_timestamp :: datetime
  env_save_now :: string
  env_write_failure :: "harvest_file option"
  env_gap_draw :: int
  env_preview_draw :: int
  env_recovery_draw :: int

record session_config =
  cfg_scroll_count :: string
  cfg_target_filter :: string
  cfg_gap_multiplier :: rat
  cfg_continuation :: ContinuationPoint
  cfg_session_priority :: string

definition generate_session_config ::
  "SmartHarvester \<Rightarrow> int \<Rightarrow> session_env \<Rightarrow> py_error + session_config" where
  "generate_session_config h session_num env =
     (case calculate_advanced_continuation_point h session_num (env_offset_draw env) of
        Inl e \<Rightarrow> Inl e
      | Inr continuation \<Rightarrow>
          (case (if strategy continuation = ''fresh_start'' then randint 18 22 (env_scroll_count_draw env)
                 else if strategy continuation = ''scroll_offset'' then randint 16 20 (env_scroll_count_draw env)
                 else if scroll_strategy continuation = ''deep'' then randint 12 16 (env_scroll_count_draw env)
                 else randint 15 20 (env_scroll_count_draw env)) of
             Inl e \<Rightarrow> Inl e
           | Inr scroll_count \<Rightarrow>
               let gap_multiplier =
                     (if session_num \<ge> 2 then 5 / 2
                      else if length (sessions h) \<ge> 1 \<and> success_rate (last (sessions h)) < 50 then 2
                      else 1)
               in Inr \<lparr> cfg_scroll_count = str_int scroll_count,
                        cfg_target_filter = ''harvest_batch_'' @ str_int (session_num + 1),
                        cfg_gap_multiplier = gap_multiplier,
                        cfg_continuation = continuation,
                        cfg_session_priority = (if session_num < 2 then ''quality'' else ''coverage'') \<rparr>))"

text \<open>
  \<^verbatim>\<open>run_harvest_session\<close>: an exception of the scraper is caught, the session is
  \<open>None\<close> and the harvester is unchanged.  Otherwise the scraped videos are merged, and
  the session is appended to the history.
\<close>

definition run_harvest_session ::
  "SmartHarvester \<Rightarrow> session_config \<Rightarrow> int \<Rightarrow> session_env \<Rightarrow> SmartHarvester \<times> HarvestSession option" where
  "run_harvest_session h config session_num env =
     (case env_scraped env of
        None \<Rightarrow> (h, None)
      | Some videos \<Rightarrow>
          let (vids, success, session_score) =
                (if videos \<noteq> [] then
                   let (vids', new_videos, duplicate_videos) = merge_videos (all_videos h) videos;
                       proper_titles = length (filter (\<lambda>v. \<not> prefix ''DRAGAMAMA_Video_'' (title v)) videos)
                   in (vids', (of_nat proper_titles :: rat) / of_nat (length videos) * 100,
                       env_session_score env)
                 else (all_videos h, 0, 0));
              session = \<lparr> session_id = env_session_id env,
                          timestamp = env_timestamp env,
                          videos_found = int (length videos),
                          success_rate = success,
                          completion_time = env_completion_time env,
                          target_filter = cfg_target_filter config,
                          total_score = session_score,
                          continuation_point = Some (cfg_continuation config) \<rparr>
          in (h \<lparr> all_videos := vids, sessions := sessions h @ [session] \<rparr>, Some session))"

text \<open>What the orchestrator does that is visible from outside, in order.\<close>

datatype event =
    SessionDone string
  | SessionFailed
  | SaveFailed py_error
  | Saved
  | Slept int

record loop_state =
  ls_harvester :: SmartHarvester
  ls_file :: harvest_file
  ls_successful :: int
  ls_events :: "event list"

text \<open>
  The body of the \<^verbatim>\<open>for\<close> loop of \<^verbatim>\<open>run_smart_harvest\<close> after the target check.
  An exception that the body does not catch ends the run: the second component is that
  exception, the first the state reached when it was raised.
\<close>

definition update_stats :: "SmartHarvester \<Rightarrow> HarvestSession \<Rightarrow> SmartHarvester" where
  "update_stats h session =
     (let s0 = harvest_stats h;
          s1 = s0 \<lparr> total_sessions := total_sessions s0 + 1,
                    total_videos := total_videos s0 + videos_found session,
                    unique_videos := int (length (all_videos h)),
                    total_time := total_time s0 + completion_time session,
                    stats_total_score := stats_total_score s0 + total_score session \<rparr>;
          s2 = (if total_score session > best_session_score s1
                then s1 \<lparr> best_session_score := total_score session \<rparr> else s1)
      in h \<lparr> harvest_stats := s2 \<rparr>)"

definition session_iteration ::
  "int \<Rightarrow> int \<Rightarrow> session_env \<Rightarrow> loop_state \<Rightarrow> loop_state \<times> py_error option" where
  "session_iteration num_sessions session_num env st =
     (case generate_session_config (ls_harvester st) session_num env of
        Inl e \<Rightarrow> (st, Some e)
      | Inr session_config \<Rightarrow>
          (case run_harvest_session (ls_harvester st) session_config session_num env of
             (h1, None) \<Rightarrow>
               (case randint 60 180 (env_recovery_draw env) of
                  Inl e \<Rightarrow> (st \<lparr> ls_harvester := h1, ls_events := ls_events st @ [SessionFailed] \<rparr>, Some e)
                | Inr pause \<Rightarrow>
                    (st \<lparr> ls_harvester := h1,
                          ls_events := ls_events st @ [SessionFailed, Slept pause] \<rparr>, None))
           | (h1, Some session) \<Rightarrow>
               let h2 = update_stats h1 session;
                   (file, save_error) =
                      save_harvest_results h2 (env_save_now env) (env_write_failure env);
                   st2 = st \<lparr> ls_harvester := h2, ls_file := file,
                              ls_successful := ls_successful st + 1,
                              ls_events := ls_events st
                                 @ [SessionDone (session_id session),
                                    (case save_error of None \<Rightarrow> Saved | Some e \<Rightarrow> SaveFailed e)] \<rparr>
               in if session_num < num_sessions - 1 then
                    (case calculate_session_gap h2 (env_gap_draw env) (cfg_gap_multiplier session_config) of
                       Inl e \<Rightarrow> (st2, Some e)
                     | Inr gap \<Rightarrow>
                         (case calculate_advanced_continuation_point h2 (session_num + 1)
                                 (env_preview_draw env) of
                            Inl e \<Rightarrow> (st2, Some e)
                          | Inr next_continuation \<Rightarrow>
                              (st2 \<lparr> ls_events := ls_events st2 @ [Slept gap] \<rparr>, None)))
                  else (st2, None)))"

text \<open>
  \<^verbatim>\<open>for session_num in range(num_sessions)\<close>: the list holds one environment for
  each iteration still to come; the loop leaves early when the target is reached
  (\<^verbatim>\<open>break\<close>) or an exception escapes the body.
\<close>

fun harvest_loop ::
  "int \<Rightarrow> int \<Rightarrow> int \<Rightarrow> session_env list \<Rightarrow> loop_state \<Rightarrow> loop_state \<times> py_error option" where
  "harvest_loop num_sessions target_videos session_num [] st = (st, None)"
| "harvest_loop num_sessions target_videos session_num (env # envs) st =
     (if int (length (all_videos (ls_harvester st))) \<ge> target_videos then (st, None)
      else
        case session_iteration num_sessions session_num env st of
          (st', Some e) \<Rightarrow> (st', Some e)
        | (st', None) \<Rightarrow> harvest_loop num_sessions target_videos (session_num + 1) envs st')"

text \<open>What the end of \<^verbatim>\<open>run_smart_harvest\<close> takes from outside.\<close>

record final_env =
  fin_total_harvest_time :: rat
  fin_save_now :: string
  fin_write_failure :: "harvest_file option"

text \<open>\<^verbatim>\<open>xs[-k:]\<close> for \<open>k > 0\<close>\<close>

definition last_k :: "int \<Rightarrow> 'a list \<Rightarrow> 'a list" where
  "last_k k xs = drop (length xs - nat k) xs"

text \<open>
  \<^verbatim>\<open>_display_harvest_report\<close> only logs; its one division by a value from outside is
  \<^verbatim>\<open>len(self.all_videos)/(total_time/3600)\<close>, reached with two sessions or more.
\<close>

definition display_harvest_report :: "SmartHarvester \<Rightarrow> int \<Rightarrow> rat \<Rightarrow> py_error option" where
  "display_harvest_report h successful_sessions elapsed =
     (if length (sessions h) \<ge> 2 \<and> elapsed / 3600 = 0 then Some ZeroDivisionError else None)"

text \<open>
  \<^verbatim>\<open>run_smart_harvest\<close>, with \<^verbatim>\<open>num_sessions\<close> the number of environments
  supplied.
\<close>

definition run_smart_harvest ::
  "SmartHarvester \<Rightarrow> harvest_file \<Rightarrow> int \<Rightarrow> session_env list \<Rightarrow> final_env
     \<Rightarrow> loop_state \<times> py_error option" where
  "run_smart_harvest h file target_videos envs fin =
     (let num_sessions = int (length envs);
          st0 = \<lparr> ls_harvester = h, ls_file = file, ls_successful = 0, ls_events = [] \<rparr>
      in case harvest_loop num_sessions target_videos 0 envs st0 of
           (st, Some e) \<Rightarrow> (st, Some e)
         | (st, None) \<Rightarrow>
             let h1 = ls_harvester st;
                 stats1 = (harvest_stats h1) \<lparr> total_time := fin_total_harvest_time fin \<rparr>;
                 stats2 =
                   (if ls_successful st > 0 then
                      let session_success_rates =
                            map success_rate (last_k (ls_successful st) (sessions h1))
                      in stats1 \<lparr> average_success_rate :=
                                    sum_list session_success_rates
                                      / of_nat (length session_success_rates) \<rparr>
                    else stats1);
                 h2 = h1 \<lparr> harvest_stats := stats2 \<rparr>;
                 (file', save_error) =
                    save_harvest_results h2 (fin_save_now fin) (fin_write_failure fin);
                 st' = st \<lparr> ls_harvester := h2, ls_file := file',
                            ls_events := ls_events st
                              @ [case save_error of None \<Rightarrow> Saved | Some e \<Rightarrow> SaveFailed e] \<rparr>
             in (st', display_harvest_report h2 (ls_successful st) (fin_total_harvest_time fin)))"

text \<open>
  \<^verbatim>\<open>main\<close>: the harvester is constructed (which loads the state file), the gap window
  of the command line is stored, the harvest runs; the exit code is 1 exactly when an
  exception reached \<^verbatim>\<open>main\<close>.
\<close>

definition main ::
  "harvest_file \<Rightarrow> int \<Rightarrow> int \<Rightarrow> int \<Rightarrow> session_env list \<Rightarrow> final_env \<Rightarrow> int \<times> loop_state" where
  "main file target gap_min gap_max envs fin =
     (let (harvester, load_warning) = SmartHarvester_init file;
          harvester' = harvester \<lparr> session_gap_min := gap_min, session_gap_max := gap_max \<rparr>;
          (st, raised) = run_smart_harvest harvester' file target envs fin
      in (if raised = None then 0 else 1, st))"

section \<open>The age-bucket format, in the words of the specification\<close>



section \<open>The gap scheduler, in the words of the specification\<close>

text \<open>
  The degradation signal: the two most recent session records show the success rate
  dropping by more than 10 points.
\<close>

definition degradation_signal :: "HarvestSession list \<Rightarrow> bool" where
  "degradation_signal ss =
     (length ss \<ge> 2
      \<and> success_rate (ss ! (length ss - 2)) - success_rate (ss ! (length ss - 1)) > 10)"

text \<open>What the history contributes to the multiplier: 3 on degradation, times 2.5 from two sessions on.\<close>

definition history_multiplier :: "HarvestSession list \<Rightarrow> rat" where
  "history_multiplier ss =
     (if degradation_signal ss then 3 else 1) * (if length ss \<ge> 2 then 5 / 2 else 1)"


section \<open>The anchor of the planner, in the words of the specification\<close>

text \<open>The items of the corpus with a known age bucket, in the order of the corpus.\<close>

definition dated_items :: "corpus \<Rightarrow> VideoData list" where
  "dated_items vids = filter (\<lambda>v. date v \<noteq> []) (dict_values vids)"

definition age_priority :: "VideoData \<Rightarrow> int" where
  "age_priority v = parse_date_to_priority (date v)"

text \<open>
  The item at the median age-priority rank: the items are ranked by priority, ties in
  the order of the corpus, and the item at rank \<open>length div 2\<close> (from 0) is taken.
\<close>

definition median_rank_item :: "VideoData list \<Rightarrow> VideoData" where
  "median_rank_item items = sort_key age_priority items ! (length items div 2)"

section \<open>Comparing two runs of the orchestrator\<close>

text \<open>An event with the outcome of a save forgotten.\<close>

definition without_save_outcome :: "event \<Rightarrow> event" where
  "without_save_outcome ev = (case ev of SaveFailed e \<Rightarrow> Saved | _ \<Rightarrow> ev)"

text \<open>
  Two states of the loop show the same progress when the harvester in memory, the
  count of successful sessions and the events, save outcomes apart, are the same.
\<close>

definition same_progress :: "loop_state \<Rightarrow> loop_state \<Rightarrow> bool" where
  "same_progress st st' =
     (ls_harvester st = ls_harvester st' \<and> ls_successful st = ls_successful st'
      \<and> map without_save_outcome (ls_events st) = map without_save_outcome (ls_events st'))"

section \<open>Sample values\<close>

text \<open>\<^verbatim>\<open>VideoData(video_id, title, url)\<close> with the defaults of the dataclass.\<close>

definition VideoData_new :: "string \<Rightarrow> string \<Rightarrow> string \<Rightarrow> VideoData" where
  "VideoData_new vid t u =
     \<lparr> video_id = vid, title = t, url = u, date = [], date_raw = [], likes = 0, comments = 0,
       shares = 0, views = [], description = [], thumbnail_url = [] \<rparr>"

definition sample_corpus :: corpus where
  "sample_corpus = [(''v1'', VideoData_new ''v1'' ''first title'' ''u1'')]"

definition sample_batch :: "VideoData list" where
  "sample_batch = [VideoData_new ''v1'' ''second title'' ''u1'',
                   VideoData_new ''v2'' ''a'' ''u2'',
                   VideoData_new ''v2'' ''b'' ''u2'']"

definition sample_harvester :: SmartHarvester where
  "sample_harvester = SmartHarvester_new \<lparr> all_videos := sample_corpus \<rparr>"

text \<open>Twenty scraped items of which \<open>k\<close> are already in \<^const>\<open>sample_corpus\<close>.\<close>

definition sample_items :: "nat \<Rightarrow> VideoData list" where
  "sample_items k =
     replicate k (VideoData_new ''v1'' ''t'' ''u'') @ replicate (20 - k) (VideoData_new ''v9'' ''t'' ''u'')"

definition sample_session :: "string \<Rightarrow> rat \<Rightarrow> HarvestSession" where
  "sample_session sid rate =
     \<lparr> session_id = sid, timestamp = 0, videos_found = 20, success_rate = rate,
       completion_time = 60, target_filter = ''harvest_batch_1'', total_score = 0,
       continuation_point = None \<rparr>"




text \<open>
  A corpus without any dated item, and a history whose session recorded an age bucket
  in its continuation point.
\<close>

definition recorded_bucket_harvester :: SmartHarvester where
  "recorded_bucket_harvester =
     SmartHarvester_new
       \<lparr> sessions :=
           [(sample_session ''s1'' 90)
              \<lparr> continuation_point :=
                  Some ((ContinuationPoint_default ''video_id_anchor'' ''earlier run'')
                          \<lparr> target_date_range := Some ''3 years ago'' \<rparr>) \<rparr>],
         all_videos := sample_corpus \<rparr>"

definition sample_env :: "string \<Rightarrow> VideoData list option \<Rightarrow> harvest_file option \<Rightarrow> session_env" where
  "sample_env sid scraped write_failure =
     \<lparr> env_offset_draw = 12, env_scroll_count_draw = 18, env_session_id = sid,
       env_scraped = scraped, env_completion_time = 60, env_session_score = 100,
       env_timestamp = 0, env_save_now = ''t'', env_write_failure = write_failure,
       env_gap_draw = 45, env_preview_draw = 11, env_recovery_draw = 90 \<rparr>"

definition sample_final :: final_env where
  "sample_final = \<lparr> fin_total_harvest_time = 200, fin_save_now = ''end'', fin_write_failure = None \<rparr>"

text \<open>Two sessions with one new video each; the write after the first one fails.\<close>

definition failing_write_run :: "session_env list" where
  "failing_write_run =
     [sample_env ''s1'' (Some [VideoData_new ''v1'' ''Draga mama 1'' ''u1'']) (Some Corrupt),
      sample_env ''s2'' (Some [VideoData_new ''v2'' ''Draga mama 2'' ''u2'']) None]"



section \<open>Verification: the corpus\<close>

lemma dict_set_absent: "k \<notin> set (map fst d) \<Longrightarrow> dict_set d k v = d @ [(k, v)]"
  by (induction d) auto

lemma merge_video_cases:
  "merge_video (vids, n, d) v =
     (if dict_contains vids (video_id v) then (vids, n, d + 1)
      else (vids @ [(video_id v, v)], n + 1, d))"
  by (simp add: merge_video_def dict_contains_def dict_set_absent)

lemma foldl_merge_video_keys:
  "set (map fst (fst (foldl merge_video (vids, n, d) videos)))
     = set (map fst vids) \<union> video_id ` set videos"
  by (induction videos arbitrary: vids n d) (auto simp: merge_video_cases dict_contains_def)

lemma foldl_merge_video_distinct:
  "distinct (map fst vids) \<Longrightarrow> distinct (map fst (fst (foldl merge_video (vids, n, d) videos)))"
  by (induction videos arbitrary: vids n d) (auto simp: merge_video_cases dict_contains_def)

lemma foldl_merge_video_lookup:
  "map_of (fst (foldl merge_video (vids, n, d) videos)) k =
     (case map_of vids k of Some v \<Rightarrow> Some v | None \<Rightarrow> find (\<lambda>w. video_id w = k) videos)"
proof (induction videos arbitrary: vids n d)
  case Nil
  show ?case by (simp split: option.split)
next
  case (Cons v videos)
  show ?case
  proof (cases "dict_contains vids (video_id v)")
    case True
    then have "map_of vids (video_id v) \<noteq> None"
      by (simp add: dict_contains_def map_of_eq_None_iff)
    then show ?thesis using True Cons.IH [of vids n "d + 1"]
      by (auto simp: merge_video_cases split: option.split)
  next
    case False
    then have "map_of vids (video_id v) = None"
      by (simp add: dict_contains_def map_of_eq_None_iff)
    then show ?thesis using False Cons.IH [of "vids @ [(video_id v, v)]" "n + 1" d]
      by (auto simp: merge_video_cases map_add_def split: option.split)
  qed
qed

lemma foldl_merge_video_counts:
  "foldl merge_video (vids, n, d) videos = (c', n', d') \<Longrightarrow>
     n' - n = int (length c') - int (length vids) \<and> (n' - n) + (d' - d) = int (length videos)"
proof (induction videos arbitrary: vids n d)
  case Nil
  then show ?case by simp
next
  case (Cons v videos)
  obtain c1 n1 d1 where st: "merge_video (vids, n, d) v = (c1, n1, d1)"
    by (cases "merge_video (vids, n, d) v") auto
  from st have one: "n1 - n = int (length c1) - int (length vids) \<and> (n1 - n) + (d1 - d) = 1"
    by (auto simp: merge_video_cases split: if_splits)
  from Cons.prems st have "foldl merge_video (c1, n1, d1) videos = (c', n', d')" by simp
  from Cons.IH [OF this] one show ?case by simp
qed

text \<open>
  Claim C1.  The corpus is a dictionary, so its keys are distinct.  Merging an item
  whose identity is present changes nothing but the duplicate counter.  After merging
  a batch, the size of the corpus is the number of distinct identities among the old
  keys and the merged items, every identity maps to what was stored first (the item
  already stored, else the first item of the batch with that identity), and the
  counters of new and duplicate items add up.  From an empty corpus the size is the
  number of distinct identities merged.
\<close>

theorem corpus_merge_first_seen_wins:
  assumes "distinct (map fst vids)"
  shows "(dict_contains vids (video_id v) \<longrightarrow> merge_video (vids, n, d) v = (vids, n, d + 1))
       \<and> (case merge_videos vids videos of
            (vids', new_videos, duplicate_videos) \<Rightarrow>
              length vids' = card (set (map fst vids) \<union> video_id ` set videos)
            \<and> distinct (map fst vids')
            \<and> (\<forall>k. map_of vids' k =
                    (case map_of vids k of
                       Some stored \<Rightarrow> Some stored
                     | None \<Rightarrow> find (\<lambda>w. video_id w = k) videos))
            \<and> new_videos = int (length vids') - int (length vids)
            \<and> new_videos + duplicate_videos = int (length videos))
       \<and> length (fst (merge_videos [] videos)) = card (video_id ` set videos)"
proof -
  obtain c' n' d' where r: "merge_videos vids videos = (c', n', d')"
    by (cases "merge_videos vids videos") auto
  then have f: "foldl merge_video (vids, 0, 0) videos = (c', n', d')"
    by (simp add: merge_videos_def)
  have c': "c' = fst (foldl merge_video (vids, 0, 0) videos)" using f by simp
  have dist: "distinct (map fst c')"
    unfolding c' by (rule foldl_merge_video_distinct [OF assms])
  have keys: "set (map fst c') = set (map fst vids) \<union> video_id ` set videos"
    unfolding c' by (rule foldl_merge_video_keys)
  have len: "length c' = card (set (map fst vids) \<union> video_id ` set videos)"
    using distinct_card [OF dist] keys by simp
  have look: "\<forall>k. map_of c' k =
      (case map_of vids k of Some stored \<Rightarrow> Some stored | None \<Rightarrow> find (\<lambda>w. video_id w = k) videos)"
    unfolding c' by (simp add: foldl_merge_video_lookup)
  have cnt: "n' = int (length c') - int (length vids) \<and> n' + d' = int (length videos)"
    using foldl_merge_video_counts [OF f] by simp
  have d0: "distinct (map fst (fst (foldl merge_video ([], 0, 0) videos)))"
    by (rule foldl_merge_video_distinct) simp
  have empty: "length (fst (merge_videos [] videos)) = card (video_id ` set videos)"
    unfolding merge_videos_def
    using distinct_card [OF d0] foldl_merge_video_keys [of "[]" 0 0 videos] by simp
  show ?thesis
    using r len dist look cnt empty by (simp add: merge_video_cases)
qed

theorem corpus_merge_first_seen_wins_witness:
  "distinct (map fst sample_corpus)
   \<and> merge_videos sample_corpus sample_batch =
       ([(''v1'', VideoData_new ''v1'' ''first title'' ''u1''),
         (''v2'', VideoData_new ''v2'' ''a'' ''u2'')], 1, 2)
   \<and> merge_video (sample_corpus, 0, 0) (VideoData_new ''v1'' ''second title'' ''u1'')
       = (sample_corpus, 0, 1)
   \<and> length (fst (merge_videos [] sample_batch)) = 2"
proof -
  have h: "distinct (map fst sample_corpus)" by (simp add: sample_corpus_def)
  have m: "merge_videos sample_corpus sample_batch =
       ([(''v1'', VideoData_new ''v1'' ''first title'' ''u1''),
         (''v2'', VideoData_new ''v2'' ''a'' ''u2'')], 1, 2)"
    by (simp add: merge_videos_def merge_video_def dict_contains_def sample_corpus_def
          sample_batch_def VideoData_new_def)
  have ids: "video_id ` set sample_batch = {''v1'', ''v2''}"
    by (auto simp: sample_batch_def VideoData_new_def)
  have present: "dict_contains sample_corpus (video_id (VideoData_new ''v1'' ''second title'' ''u1''))"
    by (simp add: dict_contains_def sample_corpus_def VideoData_new_def)
  note inst = corpus_merge_first_seen_wins
                [OF h, of "VideoData_new ''v1'' ''second title'' ''u1''" 0 0 sample_batch]
  from inst present
  have dup: "merge_video (sample_corpus, 0, 0) (VideoData_new ''v1'' ''second title'' ''u1'')
               = (sample_corpus, 0, 1)"
    by simp
  from inst
  have "length (fst (merge_videos [] sample_batch)) = card (video_id ` set sample_batch)"
    by blast
  then have "length (fst (merge_videos [] sample_batch)) = 2" by (simp add: ids)
  with h m dup show ?thesis by simp
qed

section \<open>Verification: the duplicate guard\<close>

lemma should_continue_session_unfold:
  assumes "early_check_count h = 20" and "duplicate_threshold h = 4 / 5"
  shows "should_continue_session h items =
           (if length items < 20 then Inr True
            else if (4 / 5 :: rat) \<le> of_nat (length (filter (\<lambda>i. dict_contains (all_videos h) (video_id i)) items))
                      / of_nat (length items) then Inr False else Inr True)"
  unfolding should_continue_session_def Let_def assms by auto

text \<open>
  Claim C2.  With the settings of the constructor (first check at 20 items, threshold
  0.8), the guard answers \<open>True\<close> for fewer than 20 items; from 20 items on it answers
  \<open>False\<close> exactly when the fraction of items whose identity is in the corpus is at
  least 4/5, and \<open>True\<close> exactly when it is below.  16 duplicates among 20 items give
  \<open>False\<close>, 15 among 20 give \<open>True\<close>.
\<close>

theorem should_continue_session_threshold:
  assumes "early_check_count h = 20" and "duplicate_threshold h = 4 / 5"
  shows "(length items < 20 \<longrightarrow> should_continue_session h items = Inr True)
       \<and> (length items \<ge> 20 \<longrightarrow>
            (should_continue_session h items = Inr False
               \<longleftrightarrow> (of_nat (length (filter (\<lambda>i. dict_contains (all_videos h) (video_id i)) items)) :: rat)
                      / of_nat (length items) \<ge> 4 / 5)
          \<and> (should_continue_session h items = Inr True
               \<longleftrightarrow> (of_nat (length (filter (\<lambda>i. dict_contains (all_videos h) (video_id i)) items)) :: rat)
                      / of_nat (length items) < 4 / 5))
       \<and> (length items = 20 \<and> length (filter (\<lambda>i. dict_contains (all_videos h) (video_id i)) items) = 16
            \<longrightarrow> should_continue_session h items = Inr False)
       \<and> (length items = 20 \<and> length (filter (\<lambda>i. dict_contains (all_videos h) (video_id i)) items) = 15
            \<longrightarrow> should_continue_session h items = Inr True)"
  unfolding should_continue_session_unfold [OF assms]
  by (auto simp: not_le)

lemma sample_items_facts:
  "k \<le> 20 \<Longrightarrow> length (sample_items k) = 20"
  "length (filter (\<lambda>i. dict_contains (all_videos sample_harvester) (video_id i)) (sample_items k)) = k"
  by (simp_all add: sample_items_def sample_harvester_def sample_corpus_def dict_contains_def
        VideoData_new_def SmartHarvester_new_def)

theorem should_continue_session_threshold_witness:
  "early_check_count sample_harvester = 20 \<and> duplicate_threshold sample_harvester = 4 / 5
   \<and> length (sample_items 16) = 20 \<and> should_continue_session sample_harvester (sample_items 16) = Inr False
   \<and> length (sample_items 15) = 20 \<and> should_continue_session sample_harvester (sample_items 15) = Inr True
   \<and> length (take 19 (sample_items 16)) < 20
   \<and> should_continue_session sample_harvester (take 19 (sample_items 16)) = Inr True"
proof -
  have a: "early_check_count sample_harvester = 20"
    by (simp add: sample_harvester_def SmartHarvester_new_def)
  have b: "duplicate_threshold sample_harvester = 4 / 5"
    by (simp add: sample_harvester_def SmartHarvester_new_def)
  have l16: "length (sample_items 16) = 20" and l15: "length (sample_items 15) = 20"
    by (simp_all add: sample_items_facts)
  have l19: "length (take 19 (sample_items 16)) < 20" by simp
  from should_continue_session_threshold [OF a b, of "sample_items 16"] l16
  have r16: "should_continue_session sample_harvester (sample_items 16) = Inr False"
    by (simp add: sample_items_facts)
  from should_continue_session_threshold [OF a b, of "sample_items 15"] l15
  have r15: "should_continue_session sample_harvester (sample_items 15) = Inr True"
    by (simp add: sample_items_facts)
  from should_continue_session_threshold [OF a b, of "take 19 (sample_items 16)"] l19
  have r19: "should_continue_session sample_harvester (take 19 (sample_items 16)) = Inr True"
    by blast
  from a b l16 l15 l19 r16 r15 r19 show ?thesis by simp
qed

section \<open>Verification: the age priority\<close>




















section \<open>Verification: the gap scheduler\<close>






lemma history_multiplier_values: "history_multiplier ss \<in> {1, 5 / 2, 15 / 2}"
  by (auto simp: history_multiplier_def degradation_signal_def)







section \<open>Verification: the continuation planner\<close>

lemma insort_key_pair:
  "insort_key snd (v, f v) (map (\<lambda>x. (x, f x)) xs) = map (\<lambda>x. (x, f x)) (insort_key f v xs)"
  by (induction xs) simp_all

lemma sort_key_pair:
  "sort_key snd (map (\<lambda>x. (x, f x)) xs) = map (\<lambda>x. (x, f x)) (sort_key f xs)"
  by (induction xs) (simp_all add: insort_key_pair)






lemma median_index: "n \<noteq> 0 \<Longrightarrow> min (n div 2) (n - 1) = n div (2::nat)"
  by (cases n) auto

lemma plan_anchor_value:
  assumes n: "2 \<le> session_num" and d: "dated_items (all_videos h) \<noteq> []"
  shows "calculate_advanced_continuation_point h session_num draw =
     Inr \<lparr> strategy = ''video_id_anchor'',
           reasoning = ''Session '' @ str_int (session_num + 1) @ '': Continue from video ''
              @ last8 (video_id (median_rank_item (dated_items (all_videos h)))) @ ''... (''
              @ date (median_rank_item (dated_items (all_videos h))) @ '')'',
           scroll_offset = min (session_num * 12) 50,
           target_date_range = Some (date (median_rank_item (dated_items (all_videos h)))),
           anchor_video_id = Some (video_id (median_rank_item (dated_items (all_videos h)))),
           expected_scroll_depth = min (session_num * 12) 50 + 15,
           date_filter_active = True,
           scroll_strategy = ''deep'' \<rparr>"
proof -
  let ?items = "dated_items (all_videos h)"
  let ?pairs = "map (\<lambda>vid. (vid, parse_date_to_priority (date vid)))
                  (filter (\<lambda>vid. date vid \<noteq> []) (dict_values (all_videos h)))"
  have pairs: "?pairs = map (\<lambda>x. (x, age_priority x)) ?items"
    by (simp add: dated_items_def age_priority_def)
  have ne: "?pairs \<noteq> []" using d by (simp add: dated_items_def)
  have sorted_pairs: "sort_key snd ?pairs = map (\<lambda>x. (x, age_priority x)) (sort_key age_priority ?items)"
    unfolding pairs by (rule sort_key_pair)
  have len: "length (sort_key snd ?pairs) = length ?items"
    by (simp add: dated_items_def)
  have l0: "length ?items \<noteq> 0" using d by simp
  have idx: "min (length (sort_key snd ?pairs) div 2) (length (sort_key snd ?pairs) - 1)
               = length ?items div 2"
    unfolding len by (rule median_index [OF l0])
  have lt: "length ?items div 2 < length (sort_key age_priority ?items)"
    using l0 by simp
  have anchor: "fst (sort_key snd ?pairs ! (length ?items div 2)) = median_rank_item ?items"
    unfolding sorted_pairs median_rank_item_def using lt by simp
  have c: "session_num \<noteq> 0" "session_num \<noteq> 1" using n by simp_all
  show ?thesis
    unfolding calculate_advanced_continuation_point_def Let_def
    using c n ne
    by (simp only: if_False if_True simp_thms idx anchor ContinuationPoint_default_def)
       simp
qed


lemma analysis_empty:
  "all_videos h = [] \<Longrightarrow> dict_get (analyze_collection_gaps h) ''most_recent_dates'' = Inl KeyError"
  by (simp add: analyze_collection_gaps_def dict_get_def)

lemma analysis_undated:
  assumes "all_videos h \<noteq> []" and "dated_items (all_videos h) = []"
  shows "dict_get (analyze_collection_gaps h) ''most_recent_dates'' = Inr (VStrList [])"
proof -
  have "filter (\<lambda>v. date v \<noteq> [] \<and> date v \<noteq> []) (dict_values (all_videos h)) = []"
    using assms(2) by (simp add: dated_items_def)
  then show ?thesis
    using assms(1) by (simp add: analyze_collection_gaps_def dict_get_def Let_def dict_keys_def)
qed

lemma plan_empty_value:
  assumes n: "2 \<le> session_num" and e: "all_videos h = []"
  shows "calculate_advanced_continuation_point h session_num draw = Inl KeyError"
proof -
  have c: "session_num \<noteq> 0" "session_num \<noteq> 1" using n by simp_all
  have d: "filter (\<lambda>vid. date vid \<noteq> []) (dict_values (all_videos h)) = []"
    using e by (simp add: dict_values_def)
  show ?thesis
    unfolding calculate_advanced_continuation_point_def Let_def analysis_empty [OF e] d
    using c n by simp
qed

lemma plan_undated_value:
  assumes n: "2 \<le> session_num" and ne: "all_videos h \<noteq> []"
      and d: "dated_items (all_videos h) = []"
  shows "calculate_advanced_continuation_point h session_num draw =
     Inr \<lparr> strategy = ''deep_scroll'',
           reasoning = ''Session '' @ str_int (session_num + 1) @ '': Deep scroll continuation'',
           scroll_offset = session_num * 10,
           target_date_range = None,
           anchor_video_id = None,
           expected_scroll_depth = session_num * 10 + 25,
           date_filter_active = False,
           scroll_strategy = ''deep'' \<rparr>"
proof -
  have c: "session_num \<noteq> 0" "session_num \<noteq> 1" using n by simp_all
  have d': "filter (\<lambda>vid. date vid \<noteq> []) (dict_values (all_videos h)) = []"
    using d by (simp add: dated_items_def)
  show ?thesis
    unfolding calculate_advanced_continuation_point_def Let_def analysis_undated [OF ne d] d'
    using c n by (simp add: ContinuationPoint_default_def)
qed





text \<open>
  Claim C10.  On an empty corpus the analysis has no field \<^verbatim>\<open>most_recent_dates\<close>,
  and from session index 2 on the planner raises \<^verbatim>\<open>KeyError\<close>.  From index 2 on the
  planner returns a continuation point exactly when the corpus is not empty.
\<close>

theorem plan_empty_corpus_key_error:
  "(2 \<le> session_num \<and> all_videos h = [] \<longrightarrow>
      dict_get (analyze_collection_gaps h) ''most_recent_dates'' = Inl KeyError
      \<and> calculate_advanced_continuation_point h session_num draw = Inl KeyError)
   \<and> (2 \<le> session_num \<longrightarrow>
        ((\<exists>cp. calculate_advanced_continuation_point h session_num draw = Inr cp)
           \<longleftrightarrow> all_videos h \<noteq> []))"
proof -
  have "\<exists>cp. calculate_advanced_continuation_point h session_num draw = Inr cp"
    if "2 \<le> session_num" "all_videos h \<noteq> []"
  proof (cases "dated_items (all_videos h) = []")
    case True
    from plan_undated_value [OF that True] show ?thesis by blast
  next
    case False
    from plan_anchor_value [OF that(1) False] show ?thesis by blast
  qed
  then show ?thesis
    using plan_empty_value [of session_num h draw] analysis_empty [of h] by auto
qed

theorem plan_empty_corpus_key_error_witness:
  "(2::int) \<le> 2 \<and> all_videos SmartHarvester_new = []
   \<and> calculate_advanced_continuation_point SmartHarvester_new 2 0 = Inl KeyError
   \<and> all_videos sample_harvester \<noteq> []
   \<and> (\<exists>cp. calculate_advanced_continuation_point sample_harvester 2 0 = Inr cp)"
proof -
  have e: "all_videos SmartHarvester_new = []" by (simp add: SmartHarvester_new_def)
  have ne: "all_videos sample_harvester \<noteq> []"
    by (simp add: sample_harvester_def sample_corpus_def)
  from plan_empty_corpus_key_error [of 2 SmartHarvester_new 0] e
  have k: "calculate_advanced_continuation_point SmartHarvester_new 2 0 = Inl KeyError" by simp
  from plan_empty_corpus_key_error [of 2 sample_harvester 0] ne
  have r: "\<exists>cp. calculate_advanced_continuation_point sample_harvester 2 0 = Inr cp" by simp
  from e ne k r show ?thesis by simp
qed

text \<open>
  Claim C6 does not hold as stated.  At session index 2, with an empty corpus and an
  empty history, the planner returns no continuation point at all.  With a corpus
  whose only item is undated and a history whose session recorded the bucket
  \<^verbatim>\<open>3 years ago\<close>, the planner returns \<^verbatim>\<open>deep_scroll\<close>, not \<^verbatim>\<open>date_anchor\<close>.
\<close>

theorem plan_fallback_counterexample:
  "calculate_advanced_continuation_point SmartHarvester_new 2 0 = Inl KeyError
   \<and> dated_items (all_videos recorded_bucket_harvester) = []
   \<and> target_date_range (the (continuation_point (hd (sessions recorded_bucket_harvester))))
       = Some ''3 years ago''
   \<and> calculate_advanced_continuation_point recorded_bucket_harvester 2 0 =
       Inr \<lparr> strategy = ''deep_scroll'',
             reasoning = ''Session 3: Deep scroll continuation'',
             scroll_offset = 20, target_date_range = None, anchor_video_id = None,
             expected_scroll_depth = 45, date_filter_active = False,
             scroll_strategy = ''deep'' \<rparr>"
proof -
  have e: "all_videos SmartHarvester_new = []" by (simp add: SmartHarvester_new_def)
  have ne: "all_videos recorded_bucket_harvester \<noteq> []"
    by (simp add: recorded_bucket_harvester_def sample_corpus_def)
  have d: "dated_items (all_videos recorded_bucket_harvester) = []"
    by (simp add: recorded_bucket_harvester_def sample_corpus_def dated_items_def
          dict_values_def VideoData_new_def)
  have t: "target_date_range (the (continuation_point (hd (sessions recorded_bucket_harvester))))
       = Some ''3 years ago''"
    by (simp add: recorded_bucket_harvester_def sample_session_def)
  have s3: "str_int 3 = ''3''" by code_simp
  have two: "(2::int) \<le> 2" by simp
  show ?thesis
    using plan_empty_value [OF two e, of 0] plan_undated_value [OF two ne d, of 0] d t
    by (simp add: s3)
qed

text \<open>
  Claim C6, amended.  From session index 2 on, when the corpus is not empty and none
  of its items has a known age bucket, the planner returns \<^verbatim>\<open>deep_scroll\<close> with
  offset \<open>index * 10\<close>, no anchor and no target bucket, whatever the session history.
  At such an index the planner never returns \<^verbatim>\<open>date_anchor\<close>: the buckets its
  fallback looks at are those of the corpus items.
\<close>

theorem plan_fallback_deep_scroll:
  assumes "2 \<le> session_num" and "all_videos h \<noteq> []" and "dated_items (all_videos h) = []"
  shows "calculate_advanced_continuation_point h session_num draw =
     Inr \<lparr> strategy = ''deep_scroll'',
           reasoning = ''Session '' @ str_int (session_num + 1) @ '': Deep scroll continuation'',
           scroll_offset = session_num * 10,
           target_date_range = None,
           anchor_video_id = None,
           expected_scroll_depth = session_num * 10 + 25,
           date_filter_active = False,
           scroll_strategy = ''deep'' \<rparr>
     \<and> (\<forall>h' draw' cp. calculate_advanced_continuation_point h' session_num draw' = Inr cp
            \<longrightarrow> strategy cp \<noteq> ''date_anchor'')"
proof -
  have "strategy cp \<noteq> ''date_anchor''"
    if r: "calculate_advanced_continuation_point h' session_num draw' = Inr cp" for h' draw' cp
  proof (cases "all_videos h' = []")
    case True
    from plan_empty_value [OF assms(1) True, of draw'] r show ?thesis by simp
  next
    case ne: False
    show ?thesis
    proof (cases "dated_items (all_videos h') = []")
      case True
      from plan_undated_value [OF assms(1) ne True, of draw'] r show ?thesis by auto
    next
      case False
      from plan_anchor_value [OF assms(1) False, of draw'] r show ?thesis by auto
    qed
  qed
  with plan_undated_value [OF assms] show ?thesis by blast
qed

theorem plan_fallback_deep_scroll_witness:
  "(2::int) \<le> 2 \<and> all_videos recorded_bucket_harvester \<noteq> []
   \<and> dated_items (all_videos recorded_bucket_harvester) = []
   \<and> calculate_advanced_continuation_point recorded_bucket_harvester 2 7 =
       Inr \<lparr> strategy = ''deep_scroll'',
             reasoning = ''Session 3: Deep scroll continuation'',
             scroll_offset = 20, target_date_range = None, anchor_video_id = None,
             expected_scroll_depth = 45, date_filter_active = False,
             scroll_strategy = ''deep'' \<rparr>"
proof -
  have ne: "all_videos recorded_bucket_harvester \<noteq> []"
    by (simp add: recorded_bucket_harvester_def sample_corpus_def)
  have d: "dated_items (all_videos recorded_bucket_harvester) = []"
    by (simp add: recorded_bucket_harvester_def sample_corpus_def dated_items_def
          dict_values_def VideoData_new_def)
  have s3: "str_int 3 = ''3''" by code_simp
  have two: "(2::int) \<le> 2" by simp
  from plan_fallback_deep_scroll [OF two ne d, of 7] ne d show ?thesis
    by (simp add: s3)
qed


section \<open>Verification: the persisted state\<close>














section \<open>Verification: failures of the state file\<close>

lemma config_write_irrelevant:
  "generate_session_config h k (env \<lparr> env_write_failure := w \<rparr>) = generate_session_config h k env"
  by (simp add: generate_session_config_def cong: sum.case_cong if_cong)

lemma run_session_write_irrelevant:
  "run_harvest_session h cfg k (env \<lparr> env_write_failure := w \<rparr>) = run_harvest_session h cfg k env"
  by (simp add: run_harvest_session_def cong: option.case_cong if_cong)

lemma save_outcome_event:
  "without_save_outcome (case snd (save_harvest_results h now w) of None \<Rightarrow> Saved | Some e \<Rightarrow> SaveFailed e) = Saved"
  by (cases w) (simp_all add: save_harvest_results_def without_save_outcome_def)

lemma session_iteration_write_irrelevant:
  assumes "same_progress st st'"
  shows "snd (session_iteration n k (env \<lparr> env_write_failure := w \<rparr>) st') = snd (session_iteration n k env st)
       \<and> same_progress (fst (session_iteration n k env st))
                        (fst (session_iteration n k (env \<lparr> env_write_failure := w \<rparr>) st'))"
proof -
  from assms have h: "ls_harvester st' = ls_harvester st" and su: "ls_successful st' = ls_successful st"
    and ev: "map without_save_outcome (ls_events st') = map without_save_outcome (ls_events st)"
    by (simp_all add: same_progress_def)
  show ?thesis
  proof (cases "generate_session_config (ls_harvester st) k env")
    case (Inl e)
    then show ?thesis using assms
      by (simp add: session_iteration_def config_write_irrelevant h)
  next
    case (Inr cfg)
    obtain h1 sess where r: "run_harvest_session (ls_harvester st) cfg k env = (h1, sess)"
      by (cases "run_harvest_session (ls_harvester st) cfg k env") auto
    show ?thesis
    proof (cases sess)
      case None
      then show ?thesis using Inr r ev su
        by (simp add: session_iteration_def config_write_irrelevant run_session_write_irrelevant h
              same_progress_def without_save_outcome_def randint_def)
    next
      case (Some session)
      obtain f1 e1 where s1: "save_harvest_results (update_stats h1 session) (env_save_now env) (env_write_failure env) = (f1, e1)"
        by (cases "save_harvest_results (update_stats h1 session) (env_save_now env) (env_write_failure env)") auto
      obtain f2 e2 where s2: "save_harvest_results (update_stats h1 session) (env_save_now env) w = (f2, e2)"
        by (cases "save_harvest_results (update_stats h1 session) (env_save_now env) w") auto
      have m1: "without_save_outcome (case e1 of None \<Rightarrow> Saved | Some e \<Rightarrow> SaveFailed e) = Saved"
        using save_outcome_event [of "update_stats h1 session" "env_save_now env" "env_write_failure env"] s1 by simp
      have m2: "without_save_outcome (case e2 of None \<Rightarrow> Saved | Some e \<Rightarrow> SaveFailed e) = Saved"
        using save_outcome_event [of "update_stats h1 session" "env_save_now env" w] s2 by simp
      have sd: "without_save_outcome (SessionDone x) = SessionDone x"
               "without_save_outcome (Slept g) = Slept g" for x g
        by (simp_all add: without_save_outcome_def)
      show ?thesis using Inr r Some s1 s2 ev su m1 m2
        by (simp add: session_iteration_def config_write_irrelevant run_session_write_irrelevant h
              same_progress_def sd Let_def split: sum.split)
    qed
  qed
qed


lemma env_write_update_same: "env \<lparr> env_write_failure := env_write_failure env \<rparr> = env"
  by simp

lemma same_progress_refl: "same_progress st st"
  by (simp add: same_progress_def)

lemma harvest_loop_write_irrelevant:
  assumes "list_all2 (\<lambda>e e'. \<exists>w. e' = e \<lparr> env_write_failure := w \<rparr>) envs envs'"
      and "same_progress st st'"
  shows "snd (harvest_loop n t k envs' st') = snd (harvest_loop n t k envs st)
       \<and> same_progress (fst (harvest_loop n t k envs st)) (fst (harvest_loop n t k envs' st'))"
  using assms
proof (induction envs envs' arbitrary: k st st' rule: list_all2_induct)
  case Nil
  then show ?case by simp
next
  case (Cons e envs e' envs')
  from Cons.hyps(1) obtain w where e': "e' = e \<lparr> env_write_failure := w \<rparr>" by blast
  have hv: "ls_harvester st' = ls_harvester st" using Cons.prems by (simp add: same_progress_def)
  show ?case
  proof (cases "int (length (all_videos (ls_harvester st))) \<ge> t")
    case True
    then show ?thesis using Cons.prems hv by simp
  next
    case False
    note step = session_iteration_write_irrelevant [OF Cons.prems, where n = n and k = k and env = e and w = w]
    obtain s1 r1 where i1: "session_iteration n k e st = (s1, r1)"
      by (cases "session_iteration n k e st") auto
    obtain s2 r2 where i2: "session_iteration n k e' st' = (s2, r2)"
      by (cases "session_iteration n k e' st'") auto
    from step i1 i2 e' have r: "r2 = r1" and sp: "same_progress s1 s2" by simp_all
    show ?thesis
    proof (cases r1)
      case None
      with False hv i1 i2 r Cons.IH [OF sp, of "k + 1"] show ?thesis by simp
    next
      case (Some err)
      with False hv i1 i2 r sp show ?thesis by simp
    qed
  qed
qed

lemma run_smart_harvest_write_irrelevant:
  assumes "list_all2 (\<lambda>e e'. \<exists>w. e' = e \<lparr> env_write_failure := w \<rparr>) envs envs'"
  shows "snd (run_smart_harvest h f' t envs' (fin \<lparr> fin_write_failure := w' \<rparr>))
           = snd (run_smart_harvest h f t envs fin)
       \<and> same_progress (fst (run_smart_harvest h f t envs fin))
            (fst (run_smart_harvest h f' t envs' (fin \<lparr> fin_write_failure := w' \<rparr>)))"
proof -
  let ?st0 = "\<lparr> ls_harvester = h, ls_file = f, ls_successful = 0, ls_events = [] \<rparr>"
  let ?st0' = "\<lparr> ls_harvester = h, ls_file = f', ls_successful = 0, ls_events = [] \<rparr>"
  have len: "length envs' = length envs" using assms by (simp add: list_all2_lengthD)
  have sp0: "same_progress ?st0 ?st0'" by (simp add: same_progress_def)
  note loop = harvest_loop_write_irrelevant [OF assms sp0, of "int (length envs)" t 0]
  obtain s1 r1 where l1: "harvest_loop (int (length envs)) t 0 envs ?st0 = (s1, r1)"
    by (cases "harvest_loop (int (length envs)) t 0 envs ?st0") auto
  obtain s2 r2 where l2: "harvest_loop (int (length envs)) t 0 envs' ?st0' = (s2, r2)"
    by (cases "harvest_loop (int (length envs)) t 0 envs' ?st0'") auto
  from loop l1 l2 have r: "r2 = r1" and sp: "same_progress s1 s2" by simp_all
  from sp have hv: "ls_harvester s2 = ls_harvester s1" and su: "ls_successful s2 = ls_successful s1"
    and ev: "map without_save_outcome (ls_events s2) = map without_save_outcome (ls_events s1)"
    by (simp_all add: same_progress_def)
  show ?thesis
  proof (cases r1)
    case (Some err)
    with l1 l2 r sp show ?thesis by (simp add: run_smart_harvest_def len)
  next
    case None
    have sv: "without_save_outcome (case snd (save_harvest_results hh now ww) of None \<Rightarrow> Saved | Some e \<Rightarrow> SaveFailed e) = Saved"
      for hh now ww by (rule save_outcome_event)
    show ?thesis using None l1 l2 r hv su ev
      by (simp add: run_smart_harvest_def len Let_def same_progress_def split_beta sv)
  qed
qed

lemma list_all2_write_map:
  "list_all2 (\<lambda>e e'. \<exists>w. e' = e \<lparr> env_write_failure := w \<rparr>) envs
      (map (\<lambda>e. e \<lparr> env_write_failure := None \<rparr>) envs)"
  by (induction envs) auto

lemma list_all2_write_refl:
  "list_all2 (\<lambda>e e'. \<exists>w. e' = e \<lparr> env_write_failure := w \<rparr>) envs envs"
proof (induction envs)
  case Nil
  show ?case by simp
next
  case (Cons e envs)
  have "\<exists>w. e = e \<lparr> env_write_failure := w \<rparr>"
    using env_write_update_same [of e, symmetric] by blast
  with Cons show ?case by simp
qed

lemma init_unreadable:
  "SmartHarvester_init Unreadable = (SmartHarvester_new, Some IOError)"
  "SmartHarvester_init Corrupt = (SmartHarvester_new, Some ValueError)"
  "SmartHarvester_init NoFile = (SmartHarvester_new, None)"
  by (simp_all add: SmartHarvester_init_def load_harvest_history_def)


text \<open>
  Claim C8 does not hold as stated.  Started on a state file that cannot be parsed, with
  two sessions of which the first cannot write the state, the program exits with code
  0: it started from an empty corpus, logged the failed save, slept, ran the second
  session and saved.
\<close>

theorem state_failures_counterexample:
  "fst (main Corrupt 300 30 120 failing_write_run sample_final) = 0
   \<and> ls_events (snd (main Corrupt 300 30 120 failing_write_run sample_final))
       = [SessionDone ''s1'', SaveFailed IOError, Slept 45, SessionDone ''s2'', Saved, Saved]
   \<and> map fst (all_videos (ls_harvester (snd (main Corrupt 300 30 120 failing_write_run sample_final))))
       = [''v1'', ''v2'']"
  by code_simp

text \<open>
  Claim C8, amended.  Failures of the state file do not reach the caller.  A state file
  that cannot be opened or parsed leaves the harvester as constructed, with an empty
  corpus, and the run has the exit code and the progress of a run without a state
  file.  A failed write of the state is logged and changes neither the exit code nor
  the progress of the run: both are those of the run in which every write succeeds.
\<close>

theorem state_failures_absorbed:
  "fst (SmartHarvester_init Unreadable) = SmartHarvester_new
   \<and> fst (SmartHarvester_init Corrupt) = SmartHarvester_new
   \<and> (f = Unreadable \<or> f = Corrupt \<longrightarrow>
        fst (main f t lo hi envs fin) = fst (main NoFile t lo hi envs fin)
        \<and> same_progress (snd (main NoFile t lo hi envs fin)) (snd (main f t lo hi envs fin)))
   \<and> fst (main g t lo hi envs fin)
       = fst (main g t lo hi (map (\<lambda>e. e \<lparr> env_write_failure := None \<rparr>) envs)
                (fin \<lparr> fin_write_failure := None \<rparr>))
   \<and> same_progress (snd (main g t lo hi envs fin))
        (snd (main g t lo hi (map (\<lambda>e. e \<lparr> env_write_failure := None \<rparr>) envs)
                (fin \<lparr> fin_write_failure := None \<rparr>)))"
proof -
  have fin_same: "fin \<lparr> fin_write_failure := fin_write_failure fin \<rparr> = fin" by simp
  have start: "fst (main f t lo hi envs fin) = fst (main NoFile t lo hi envs fin)
        \<and> same_progress (snd (main NoFile t lo hi envs fin)) (snd (main f t lo hi envs fin))"
    if "f = Unreadable \<or> f = Corrupt"
  proof -
    let ?h = "SmartHarvester_new \<lparr> session_gap_min := lo, session_gap_max := hi \<rparr>"
    from run_smart_harvest_write_irrelevant [OF list_all2_write_refl,
           where h = ?h and f = NoFile and f' = f and t = t and envs = envs and fin = fin
             and w' = "fin_write_failure fin"]
    have "snd (run_smart_harvest ?h f t envs fin) = snd (run_smart_harvest ?h NoFile t envs fin)
       \<and> same_progress (fst (run_smart_harvest ?h NoFile t envs fin))
            (fst (run_smart_harvest ?h f t envs fin))"
      unfolding fin_same .
    then show ?thesis using that
      by (auto simp: main_def init_unreadable split_beta Let_def)
  qed
  have writes: "fst (main g t lo hi envs fin)
       = fst (main g t lo hi (map (\<lambda>e. e \<lparr> env_write_failure := None \<rparr>) envs)
                (fin \<lparr> fin_write_failure := None \<rparr>))
   \<and> same_progress (snd (main g t lo hi envs fin))
        (snd (main g t lo hi (map (\<lambda>e. e \<lparr> env_write_failure := None \<rparr>) envs)
                (fin \<lparr> fin_write_failure := None \<rparr>)))"
    using run_smart_harvest_write_irrelevant [OF list_all2_write_map,
           where f = g and f' = g and t = t and envs = envs and fin = fin and w' = None]
    by (simp add: main_def split_beta Let_def)
  from start writes show ?thesis by (simp add: init_unreadable)
qed

theorem state_failures_absorbed_witness:
  "(Corrupt = Unreadable \<or> Corrupt = Corrupt)
   \<and> fst (main Corrupt 300 30 120 failing_write_run sample_final) = 0
   \<and> fst (main NoFile 300 30 120 failing_write_run sample_final) = 0
   \<and> fst (main NoFile 300 30 120 (map (\<lambda>e. e \<lparr> env_write_failure := None \<rparr>) failing_write_run)
           (sample_final \<lparr> fin_write_failure := None \<rparr>)) = 0"
proof -
  have c: "Corrupt = Unreadable \<or> Corrupt = Corrupt" by simp
  have v: "fst (main Corrupt 300 30 120 failing_write_run sample_final) = 0" by code_simp
  note inst = state_failures_absorbed
     [of Corrupt 300 30 120 failing_write_run sample_final NoFile]
  from inst c v have n: "fst (main NoFile 300 30 120 failing_write_run sample_final) = 0"
    by simp
  from inst n have "fst (main NoFile 300 30 120 (map (\<lambda>e. e \<lparr> env_write_failure := None \<rparr>) failing_write_run)
           (sample_final \<lparr> fin_write_failure := None \<rparr>)) = 0"
    by simp
  with c v n show ?thesis by blast
qed


end
